theory Spec2Isabelle
  imports Main "HOL-Library.Sublist"
begin

section \<open>The Hunyuan3D pipeline runner (hunyuan3d\_runner.py)\<close>

text \<open>
  The runner is a sequence of steps, each of which starts an external process or touches
  the file system, and each of which returns a value or raises. The embedding makes
  both effects explicit: a step takes the world (the file system and the trace of what
  has been invoked so far) and returns a result of type \<open>pyexc + 'a\<close> together with
  the new world. The answers of the external processes are not the program's to decide,
  so they are a parameter (\<open>env\<close>). Console output is not modelled, and \<open>print\<close> is
  taken never to raise.
\<close>

subsection \<open>Exceptions\<close>

text \<open>
  The exception classes the program raises, catches or lets through.
  \<open>OtherOSError\<close> stands for an \<open>OSError\<close> of a class the program names nowhere
  (\<open>PermissionError\<close>, say). \<open>SystemExit\<close> is what \<open>sys.exit\<close> raises; it is a
  \<open>BaseException\<close> but no \<open>Exception\<close>, so \<open>except Exception\<close> lets it through.
  Exceptions that arrive from outside the program's own calls (\<open>KeyboardInterrupt\<close>)
  are not modelled.
\<close>

datatype pyexc =
    CalledProcessError int
  | FileNotFoundError
  | FileExistsError
  | NotADirectoryError
  | IsADirectoryError
  | SameFileError
  | OtherOSError
  | RuntimeError string
  | SystemExit int

fun is_CalledProcessError :: "pyexc \<Rightarrow> bool" where
  "is_CalledProcessError (CalledProcessError _) = True"
| "is_CalledProcessError _ = False"

fun is_Exception :: "pyexc \<Rightarrow> bool" where
  "is_Exception (SystemExit _) = False"
| "is_Exception _ = True"

text \<open>
  The exit status of the interpreter when an exception reaches the top level:
  the argument of \<open>SystemExit\<close>, and 1 (after the traceback) for anything else.
\<close>

fun uncaught_exit :: "pyexc \<Rightarrow> int" where
  "uncaught_exit (SystemExit c) = c"
| "uncaught_exit _ = 1"

subsection \<open>The file system\<close>

text \<open>
  A path is the list of its components below the root (\<open>[]\<close> is the root itself); the
  program's \<open>Path\<close> objects are such lists, already expanded and absolute. A file
  carries its bytes and the metadata \<open>shutil.copystat\<close> copies. There are no links
  and no permissions in the model.
\<close>

type_synonym path = "string list"

record stat =
  st_mode :: nat
  st_atime :: nat
  st_mtime :: nat

datatype node = Dir | File string stat

type_synonym filesystem = "path \<Rightarrow> node option"

definition path_exists :: "filesystem \<Rightarrow> path \<Rightarrow> bool" where
  "path_exists fs p = (p = [] \<or> fs p \<noteq> None)"

definition is_dir :: "filesystem \<Rightarrow> path \<Rightarrow> bool" where
  "is_dir fs p = (p = [] \<or> fs p = Some Dir)"

text \<open>\<open>Path.parent\<close>: the root is its own parent.\<close>

definition parent :: "path \<Rightarrow> path" where
  "parent p = butlast p"

text \<open>
  \<open>os.mkdir\<close>: the parent must be a directory and the name must be free.
\<close>

definition os_mkdir :: "filesystem \<Rightarrow> path \<Rightarrow> pyexc + filesystem" where
  "os_mkdir fs p =
     (if p = [] then Inl FileExistsError
      else if \<not> path_exists fs (parent p) then Inl FileNotFoundError
      else if \<not> is_dir fs (parent p) then Inl NotADirectoryError
      else if path_exists fs p then Inl FileExistsError
      else Inr (fs(p \<mapsto> Dir)))"

text \<open>
  \<open>Path.mkdir(parents, exist_ok)\<close> as pathlib writes it:
  \<^verbatim>\<open>
  try:
      os.mkdir(self, mode)
  except FileNotFoundError:
      if not parents or self.parent == self:
          raise
      self.parent.mkdir(parents=True, exist_ok=True)
      self.mkdir(mode, parents=False, exist_ok=exist_ok)
  except OSError:
      if not exist_ok or not self.is_dir():
          raise
  \<close>
\<close>

function mkdir :: "filesystem \<Rightarrow> path \<Rightarrow> bool \<Rightarrow> bool \<Rightarrow> pyexc + filesystem" where
  "mkdir fs p parents exist_ok =
     (case os_mkdir fs p of
        Inr fs' \<Rightarrow> Inr fs'
      | Inl e \<Rightarrow>
          if e = FileNotFoundError then
            (if \<not> parents \<or> parent p = p then Inl e
             else (case mkdir fs (parent p) True True of
                     Inl e' \<Rightarrow> Inl e'
                   | Inr fs' \<Rightarrow> mkdir fs' p False exist_ok))
          else if \<not> exist_ok \<or> \<not> is_dir fs p then Inl e
          else Inr fs)"
  by pat_completeness auto
termination
proof (relation "measure (\<lambda>(fs, p, parents, exist_ok). 2 * length p + (if parents then 1 else 0))")
  show "wf (measure (\<lambda>(fs, p, parents, exist_ok). 2 * length p + (if parents then 1 else 0)))"
    by simp
next
  fix fs :: filesystem and p :: path and parents exist_ok :: bool and e :: pyexc
  assume "\<not> (\<not> parents \<or> parent p = p)"
  then have "p \<noteq> []" by (auto simp: parent_def)
  then have "length (butlast p) < length p" by (cases p rule: rev_cases) auto
  then show "((fs, parent p, True, True), fs, p, parents, exist_ok)
      \<in> measure (\<lambda>(fs, p, parents, exist_ok). 2 * length p + (if parents then 1 else 0))"
    by (simp add: parent_def)
next
  fix fs fs' :: filesystem and p :: path and parents exist_ok :: bool
  assume "\<not> (\<not> parents \<or> parent p = p)"
  then show "((fs', p, False, exist_ok), fs, p, parents, exist_ok)
      \<in> measure (\<lambda>(fs, p, parents, exist_ok). 2 * length p + (if parents then 1 else 0))"
    by simp
qed

declare mkdir.simps [simp del]

text \<open>
  \<open>shutil.copy2(src, dst)\<close>: a destination that is a directory stands for the file of
  the source's name inside it; \<open>copyfile\<close> refuses to copy a file onto itself, reads
  the source and writes the destination; \<open>copystat\<close> then gives the destination the
  source's metadata. \<open>st0\<close> is the metadata the operating system gives the file
  \<open>copyfile\<close> has just written.
\<close>

definition samefile :: "filesystem \<Rightarrow> path \<Rightarrow> path \<Rightarrow> bool" where
  "samefile fs src dst = (path_exists fs src \<and> path_exists fs dst \<and> src = dst)"

definition open_wb :: "filesystem \<Rightarrow> path \<Rightarrow> string \<Rightarrow> stat \<Rightarrow> pyexc + filesystem" where
  "open_wb fs dst bytes st0 =
     (if dst = [] then Inl IsADirectoryError
      else if \<not> path_exists fs (parent dst) then Inl FileNotFoundError
      else if \<not> is_dir fs (parent dst) then Inl NotADirectoryError
      else if is_dir fs dst then Inl IsADirectoryError
      else Inr (fs(dst \<mapsto> File bytes st0)))"

definition copyfile :: "filesystem \<Rightarrow> stat \<Rightarrow> path \<Rightarrow> path \<Rightarrow> pyexc + filesystem" where
  "copyfile fs st0 src dst =
     (if samefile fs src dst then Inl SameFileError
      else if src = [] then Inl IsADirectoryError
      else (case fs src of
              None \<Rightarrow> Inl FileNotFoundError
            | Some Dir \<Rightarrow> Inl IsADirectoryError
            | Some (File bytes st) \<Rightarrow> open_wb fs dst bytes st0))"

definition copystat :: "filesystem \<Rightarrow> path \<Rightarrow> path \<Rightarrow> filesystem" where
  "copystat fs src dst =
     (case (fs src, fs dst) of
        (Some (File _ st), Some (File bytes _)) \<Rightarrow> fs(dst \<mapsto> File bytes st)
      | _ \<Rightarrow> fs)"

definition copy2 :: "filesystem \<Rightarrow> stat \<Rightarrow> path \<Rightarrow> path \<Rightarrow> pyexc + filesystem" where
  "copy2 fs st0 src dst =
     (let dst' = (if is_dir fs dst \<and> src \<noteq> [] then dst @ [last src] else dst) in
      case copyfile fs st0 src dst' of
        Inl e \<Rightarrow> Inl e
      | Inr fs' \<Rightarrow> Inr (copystat fs' src dst'))"

subsection \<open>External processes\<close>

text \<open>
  What starting a command line can come to: the process ran and exited with a status
  and some standard output, or it could not be started because no such executable
  exists (\<open>FileNotFoundError\<close>) or for another reason (another \<open>OSError\<close>).
\<close>

datatype proc_outcome = Exited int string | NoExecutable | SpawnFailed

text \<open>
  The environment of one invocation: the outcome of every command line, what the
  container leaves in the file system when it runs (it sees the workspace through the
  bind mount), and the metadata of freshly written files. The version query, the GPU
  probe, the image listing and the pull are taken not to touch the host's paths. No
  command line is started twice in one invocation, so one outcome for each loses
  nothing.
\<close>

record env =
  exec :: "string list \<Rightarrow> proc_outcome"
  container :: "filesystem \<Rightarrow> filesystem"
  fresh_stat :: stat

datatype step =
    CheckDocker | CheckGpu | CheckImage | PullImage | SetupDataDir | CopyInput | GenerateShape

datatype event = Call step | Exec "string list"

record world =
  files :: filesystem
  trace :: "event list"

definition emit :: "event \<Rightarrow> world \<Rightarrow> world" where
  "emit e w = w\<lparr>trace := trace w @ [e]\<rparr>"

type_synonym 'a outcome = "(pyexc + 'a) \<times> world"

text \<open>
  \<open>subprocess.run(argv, text=True, check=True)\<close>: returns the captured standard
  output (empty when nothing is captured, as falsy as Python's \<open>None\<close>), raises
  \<open>CalledProcessError\<close> on a nonzero status.
\<close>

definition subprocess_run :: "env \<Rightarrow> string list \<Rightarrow> bool \<Rightarrow> world \<Rightarrow> string outcome" where
  "subprocess_run E argv capture_output w =
     (let w' = emit (Exec argv) w in
      case exec E argv of
        Exited rc out \<Rightarrow>
          if rc \<noteq> 0 then (Inl (CalledProcessError rc), w')
          else (Inr (if capture_output then out else []), w')
      | NoExecutable \<Rightarrow> (Inl FileNotFoundError, w')
      | SpawnFailed \<Rightarrow> (Inl OtherOSError, w'))"

text \<open>\<open>str.strip()\<close> on ASCII text.\<close>

definition py_isspace :: "char \<Rightarrow> bool" where
  "py_isspace c = (c \<in> set [CHR 0x09, CHR 0x0A, CHR 0x0B, CHR 0x0C, CHR 0x0D,
                              CHR 0x1C, CHR 0x1D, CHR 0x1E, CHR 0x1F, CHR 0x20])"

definition strip :: "string \<Rightarrow> string" where
  "strip s = rev (dropWhile py_isspace (rev (dropWhile py_isspace s)))"

subsection \<open>The runner\<close>

record runner =
  docker_image :: string
  data_dir :: path

text \<open>\<open>__init__\<close>; the directory arrives with its \<open>~\<close> already expanded.\<close>

definition Hunyuan3DRunner :: "string \<Rightarrow> path \<Rightarrow> runner" where
  "Hunyuan3DRunner img dir = \<lparr>docker_image = img, data_dir = dir\<rparr>"

definition pull_cmd :: "runner \<Rightarrow> string list" where
  "pull_cmd r = [''docker'', ''pull'', docker_image r]"

definition images_cmd :: "runner \<Rightarrow> string list" where
  "images_cmd r = [''docker'', ''images'', ''-q'', docker_image r]"

definition version_cmd :: "string list" where
  "version_cmd = [''docker'', ''--version'']"

definition gpu_cmd :: "string list" where
  "gpu_cmd = [''nvidia-smi'']"

definition pull_docker_image :: "runner \<Rightarrow> env \<Rightarrow> world \<Rightarrow> bool outcome" where
  "pull_docker_image r E w =
     (case subprocess_run E (pull_cmd r) False (emit (Call PullImage) w) of
        (Inr _, w') \<Rightarrow> (Inr True, w')
      | (Inl e, w') \<Rightarrow> if is_CalledProcessError e then (Inr False, w') else (Inl e, w'))"

text \<open>
  The call of \<open>pull_docker_image\<close> stands inside the \<open>try\<close> block, so the handler
  for \<open>CalledProcessError\<close> covers it too.
\<close>

definition check_docker_image_exists :: "runner \<Rightarrow> env \<Rightarrow> world \<Rightarrow> bool outcome" where
  "check_docker_image_exists r E w =
     (case (case subprocess_run E (images_cmd r) True (emit (Call CheckImage) w) of
              (Inr out, w') \<Rightarrow>
                if strip out \<noteq> [] then (Inr True, w') else pull_docker_image r E w'
            | (Inl e, w') \<Rightarrow> (Inl e, w')) of
        (Inr b, w') \<Rightarrow> (Inr b, w')
      | (Inl e, w') \<Rightarrow> if is_CalledProcessError e then (Inr False, w') else (Inl e, w'))"

definition setup_data_directory :: "runner \<Rightarrow> world \<Rightarrow> unit outcome" where
  "setup_data_directory r w =
     (let w' = emit (Call SetupDataDir) w in
      case mkdir (files w') (data_dir r) True True of
        Inl e \<Rightarrow> (Inl e, w')
      | Inr fs' \<Rightarrow> (Inr (), w'\<lparr>files := fs'\<rparr>))"

definition copy_input_image :: "runner \<Rightarrow> env \<Rightarrow> path \<Rightarrow> world \<Rightarrow> path outcome" where
  "copy_input_image r E input_image_path w =
     (let w' = emit (Call CopyInput) w in
      if \<not> path_exists (files w') input_image_path then (Inl FileNotFoundError, w')
      else
        let target_path = data_dir r @ [''input.png''] in
        case copy2 (files w') (fresh_stat E) input_image_path target_path of
          Inl e \<Rightarrow> (Inl e, w')
        | Inr fs' \<Rightarrow> (Inr target_path, w'\<lparr>files := fs'\<rparr>))"

definition check_docker_available :: "env \<Rightarrow> world \<Rightarrow> bool outcome" where
  "check_docker_available E w =
     (case subprocess_run E version_cmd True (emit (Call CheckDocker) w) of
        (Inr _, w') \<Rightarrow> (Inr True, w')
      | (Inl e, w') \<Rightarrow>
          if is_CalledProcessError e \<or> e = FileNotFoundError then (Inr False, w')
          else (Inl e, w'))"

definition check_gpu_available :: "env \<Rightarrow> world \<Rightarrow> bool outcome" where
  "check_gpu_available E w =
     (case subprocess_run E gpu_cmd True (emit (Call CheckGpu) w) of
        (Inr _, w') \<Rightarrow> (Inr True, w')
      | (Inl e, w') \<Rightarrow>
          if is_CalledProcessError e \<or> e = FileNotFoundError then (Inr False, w')
          else (Inl e, w'))"

text \<open>The script handed to \<open>python3 -c\<close> inside the container.\<close>

definition python_script :: string where
  "python_script =
     ''\<newline>import sys\<newline>'' @
     ''sys.path.insert(0, './hy3dshape')\<newline>'' @
     ''from hy3dshape.pipelines import Hunyuan3DDiTFlowMatchingPipeline\<newline>'' @
     ''\<newline>'' @
     ''print('Loading Hunyuan3D pipeline...')\<newline>'' @
     ''pipeline = Hunyuan3DDiTFlowMatchingPipeline.from_pretrained('tencent/Hunyuan3D-2.1')\<newline>'' @
     ''\<newline>'' @
     ''print('Generating mesh from /data/input.png...')\<newline>'' @
     ''mesh = pipeline(image='/data/input.png')[0]\<newline>'' @
     ''\<newline>'' @
     ''print('Saving to /data/output_shape.glb...')\<newline>'' @
     ''mesh.export('/data/output_shape.glb')\<newline>'' @
     ''\<newline>'' @
     ''print('' @ [CHR 0x27, CHR 0xE2, CHR 0x9C, CHR 0x93] @ '' Shape generation complete!')\<newline>''"

definition str_path :: "path \<Rightarrow> string" where
  "str_path p = (if p = [] then ''/'' else concat (map (\<lambda>c. ''/'' @ c) p))"

definition docker_cmd :: "runner \<Rightarrow> string list" where
  "docker_cmd r =
     [''docker'', ''run'',
      ''--gpus'', ''all'',
      ''--rm'',
      ''-v'', str_path (data_dir r) @ '':/data'',
      ''-w'', ''/workspace/Hunyuan3D-2.1'',
      docker_image r,
      ''python3'', ''-c'', python_script]"

text \<open>
  The container process: \<open>subprocess.run\<close> of the command, during which a container
  that was started writes to the host through the mounted workspace.
\<close>

definition run_container :: "env \<Rightarrow> string list \<Rightarrow> bool \<Rightarrow> world \<Rightarrow> string outcome" where
  "run_container E argv capture_output w =
     (case subprocess_run E argv capture_output w of
        (res, w') \<Rightarrow>
          (res, case exec E argv of
                  Exited _ _ \<Rightarrow> w'\<lparr>files := container E (files w')\<rparr>
                | _ \<Rightarrow> w'))"

text \<open>
  \<open>generate_shape\<close>: the \<open>RuntimeError\<close> is raised inside the \<open>try\<close> block, whose
  handler takes \<open>CalledProcessError\<close> only, and raises it again.
\<close>

definition generate_shape :: "runner \<Rightarrow> env \<Rightarrow> bool \<Rightarrow> world \<Rightarrow> path outcome" where
  "generate_shape r E verbose w =
     (let output_file = data_dir r @ [''output_shape.glb''] in
      case (case run_container E (docker_cmd r) (\<not> verbose) (emit (Call GenerateShape) w) of
              (Inr out, w') \<Rightarrow>
                if path_exists (files w') output_file then (Inr output_file, w')
                else (Inl (RuntimeError ''Output file was not created''), w')
            | (Inl e, w') \<Rightarrow> (Inl e, w')) of
        (Inr p, w') \<Rightarrow> (Inr p, w')
      | (Inl e, w') \<Rightarrow> if is_CalledProcessError e then (Inl e, w') else (Inl e, w'))"

text \<open>Sequencing: a statement after one that raised does not run.\<close>

definition and_then :: "'a outcome \<Rightarrow> ('a \<Rightarrow> world \<Rightarrow> 'b outcome) \<Rightarrow> 'b outcome" where
  "and_then m f = (case m of (Inl e, w) \<Rightarrow> (Inl e, w) | (Inr x, w) \<Rightarrow> f x w)"

definition sys_exit :: "int \<Rightarrow> world \<Rightarrow> 'a outcome" where
  "sys_exit c w = (Inl (SystemExit c), w)"

definition run :: "runner \<Rightarrow> env \<Rightarrow> path \<Rightarrow> bool \<Rightarrow> world \<Rightarrow> path outcome" where
  "run r E input_image_path verbose w =
     and_then (check_docker_available E w) (\<lambda>docker_ok w.
       if \<not> docker_ok then sys_exit 1 w
       else
     and_then (check_gpu_available E w) (\<lambda>_ w.
     and_then (check_docker_image_exists r E w) (\<lambda>image_ok w.
       if \<not> image_ok then sys_exit 1 w
       else
     and_then (setup_data_directory r w) (\<lambda>_ w.
     and_then (copy_input_image r E input_image_path w) (\<lambda>_ w.
     generate_shape r E verbose w)))))"

subsection \<open>The command line\<close>

record args =
  input_image :: path
  docker_image_arg :: string
  output_dir :: path
  quiet :: bool
  test :: bool

text \<open>The branch of \<open>main\<close> taken with \<open>--test\<close>; nothing in it catches an exception.\<close>

definition test_mode :: "runner \<Rightarrow> env \<Rightarrow> path \<Rightarrow> world \<Rightarrow> unit outcome" where
  "test_mode r E input_path w =
     and_then (check_docker_available E w) (\<lambda>docker_ok w.
     and_then (check_gpu_available E w) (\<lambda>_ w.
     and_then (check_docker_image_exists r E w) (\<lambda>image_ok w.
     and_then (setup_data_directory r w) (\<lambda>_ w.
       (if path_exists (files w) input_path then (Inr (), w) else (Inr (), w))))))"

text \<open>
  \<open>main\<close>, from the parsed arguments and the file system it starts on, to the exit
  status of the process and the world it leaves.
\<close>

definition main :: "args \<Rightarrow> env \<Rightarrow> filesystem \<Rightarrow> int \<times> world" where
  "main a E fs0 =
     (let runner = Hunyuan3DRunner (docker_image_arg a) (output_dir a);
          w0 = \<lparr>files = fs0, trace = []\<rparr> in
      if test a then
        (case test_mode runner E (input_image a) w0 of
           (Inr _, w) \<Rightarrow> (0, w)
         | (Inl e, w) \<Rightarrow> (uncaught_exit e, w))
      else
        (case run runner E (input_image a) (\<not> quiet a) w0 of
           (Inr output_file, w) \<Rightarrow> (0, w)
         | (Inl e, w) \<Rightarrow>
             if is_Exception e then (uncaught_exit (SystemExit 1), w)
             else (uncaught_exit e, w)))"

section \<open>Vocabulary of the properties\<close>

text \<open>The world after a step has appended the events \<open>es\<close> to the trace.\<close>

definition ran :: "world \<Rightarrow> event list \<Rightarrow> world" where
  "ran w es = w\<lparr>trace := trace w @ es\<rparr>"

text \<open>
  A file system is a tree when whatever exists lies in a directory. A path is unblocked
  when none of its prefixes, itself included, is taken by something that is no
  directory. \<open>mkdirs fs p\<close> is \<open>fs\<close> with a directory at every missing prefix of \<open>p\<close>.
\<close>

definition wf_fs :: "filesystem \<Rightarrow> bool" where
  "wf_fs fs = (\<forall>p. path_exists fs p \<longrightarrow> is_dir fs (parent p))"

definition unblocked :: "filesystem \<Rightarrow> path \<Rightarrow> bool" where
  "unblocked fs p = (\<forall>q. prefix q p \<longrightarrow> path_exists fs q \<longrightarrow> is_dir fs q)"

definition mkdirs :: "filesystem \<Rightarrow> path \<Rightarrow> filesystem" where
  "mkdirs fs p = (\<lambda>q. if prefix q p \<and> q \<noteq> [] \<and> fs q = None then Some Dir else fs q)"

text \<open>A process that was started, and one that exited with status 0.\<close>

definition started :: "proc_outcome \<Rightarrow> bool" where
  "started out = (case out of Exited _ _ \<Rightarrow> True | _ \<Rightarrow> False)"

definition succeeded :: "proc_outcome \<Rightarrow> bool" where
  "succeeded out = (case out of Exited rc _ \<Rightarrow> rc = 0 | _ \<Rightarrow> False)"

text \<open>The image is there after step 3: listed locally, or the listing is empty and the pull exits with 0.\<close>

definition image_resolved :: "env \<Rightarrow> runner \<Rightarrow> bool" where
  "image_resolved E r =
     (case exec E (images_cmd r) of
        Exited rc out \<Rightarrow> rc = 0 \<and> (strip out \<noteq> [] \<or> succeeded (exec E (pull_cmd r)))
      | _ \<Rightarrow> False)"

text \<open>
  Every step of a full run does its work: the runtime answers, the GPU probe does not
  raise, the image is resolved, the workspace can be made, the input exists and is
  staged, the container exits with 0 and the output file is there afterwards.
\<close>

definition full_run_succeeds :: "args \<Rightarrow> env \<Rightarrow> filesystem \<Rightarrow> bool" where
  "full_run_succeeds a E fs0 =
     (let r = Hunyuan3DRunner (docker_image_arg a) (output_dir a) in
      succeeded (exec E version_cmd) \<and> exec E gpu_cmd \<noteq> SpawnFailed \<and> image_resolved E r \<and>
      (case mkdir fs0 (data_dir r) True True of
         Inl _ \<Rightarrow> False
       | Inr fs1 \<Rightarrow>
           path_exists fs1 (input_image a) \<and>
           (case copy2 fs1 (fresh_stat E) (input_image a) (data_dir r @ [''input.png'']) of
              Inl _ \<Rightarrow> False
            | Inr fs2 \<Rightarrow>
                succeeded (exec E (docker_cmd r)) \<and>
                path_exists (container E fs2) (data_dir r @ [''output_shape.glb'']))))"

section \<open>Sample inputs\<close>

definition st644 :: stat where
  "st644 = \<lparr>st_mode = 420, st_atime = 1, st_mtime = 2\<rparr>"

definition fs_home :: filesystem where
  "fs_home = [[''home''] \<mapsto> Dir, [''home'', ''u''] \<mapsto> Dir,
              [''home'', ''u'', ''cat.jpg''] \<mapsto> File ''JFIF'' st644]"

definition args_full :: args where
  "args_full = \<lparr>input_image = [''home'', ''u'', ''cat.jpg''],
                 docker_image_arg = ''your_username/hunyuan3d:latest'',
                 output_dir = [''home'', ''u'', ''hunyuan_data''],
                 quiet = False, test = False\<rparr>"

definition args_test :: args where
  "args_test = args_full\<lparr>test := True\<rparr>"

definition args_missing :: args where
  "args_missing = args_full\<lparr>input_image := [''home'', ''u'', ''nope.png'']\<rparr>"

definition args_test_missing :: args where
  "args_test_missing = args_missing\<lparr>test := True\<rparr>"

definition runner0 :: runner where
  "runner0 = Hunyuan3DRunner ''your_username/hunyuan3d:latest'' [''home'', ''u'', ''hunyuan_data'']"

text \<open>A workspace two levels below what exists, and one below a regular file.\<close>

definition runner_deep :: runner where
  "runner_deep = Hunyuan3DRunner ''your_username/hunyuan3d:latest'' [''home'', ''u'', ''out'', ''run1'']"

definition runner_blocked :: runner where
  "runner_blocked =
     Hunyuan3DRunner ''your_username/hunyuan3d:latest'' [''home'', ''u'', ''cat.jpg'', ''out'']"

definition args_test_blocked :: args where
  "args_test_blocked = args_test\<lparr>output_dir := [''home'', ''u'', ''cat.jpg'', ''out'']\<rparr>"

text \<open>The file system with the workspace made, and after an earlier run has staged its input.\<close>

definition fs_ready :: filesystem where
  "fs_ready = fs_home([''home'', ''u'', ''hunyuan_data''] \<mapsto> Dir)"

definition fs_staged :: filesystem where
  "fs_staged = fs_ready([''home'', ''u'', ''hunyuan_data'', ''input.png''] \<mapsto> File ''JFIF'' st644)"

text \<open>Every command exits with 0 and prints something; the container writes the mesh.\<close>

definition env_ok :: env where
  "env_ok = \<lparr>exec = (\<lambda>argv. Exited 0 ''ok''),
              container = (\<lambda>fs. fs([''home'', ''u'', ''hunyuan_data'', ''output_shape.glb'']
                                     \<mapsto> File ''glTF'' st644)),
              fresh_stat = \<lparr>st_mode = 384, st_atime = 7, st_mtime = 7\<rparr>\<rparr>"

text \<open>The same, but the container writes nothing.\<close>

definition env_silent :: env where
  "env_silent = env_ok\<lparr>container := (\<lambda>fs. fs)\<rparr>"

text \<open>No executable is installed: nothing can be started.\<close>

definition env_no_docker :: env where
  "env_no_docker = env_silent\<lparr>exec := (\<lambda>argv. NoExecutable)\<rparr>"

text \<open>Docker is installed, but every command exits with status 1.\<close>

definition env_failing :: env where
  "env_failing = env_silent\<lparr>exec := (\<lambda>argv. Exited 1 [])\<rparr>"

text \<open>The image is not listed locally and the pull fails.\<close>

definition env_no_image :: env where
  "env_no_image =
     env_silent\<lparr>exec := (\<lambda>argv. if argv = pull_cmd runner0 then Exited 1 []
                                 else if argv = images_cmd runner0 then Exited 0 ''\<newline>''
                                 else Exited 0 ''ok'')\<rparr>"

section \<open>Basic facts\<close>

lemma trace_emit [simp]: "trace (emit e w) = trace w @ [e]"
  by (simp add: emit_def)

lemma files_emit [simp]: "files (emit e w) = files w"
  by (simp add: emit_def)

lemma ran_simps [simp]:
  "files (ran w es) = files w"
  "trace (ran w es) = trace w @ es"
  "ran (ran w es) es' = ran w (es @ es')"
  "emit e (ran w es) = ran w (es @ [e])"
  by (simp_all add: ran_def emit_def)

lemma emit_ran: "emit e w = ran w [e]"
  by (simp add: ran_def emit_def)

lemma and_then_simps [simp]:
  "and_then (Inl e, w) f = (Inl e, w)"
  "and_then (Inr x, w) f = f x w"
  by (simp_all add: and_then_def)

lemma cmds_distinct [simp]:
  "docker_cmd r \<noteq> version_cmd" "docker_cmd r \<noteq> gpu_cmd"
  "docker_cmd r \<noteq> images_cmd r'" "docker_cmd r \<noteq> pull_cmd r'"
  "images_cmd r \<noteq> pull_cmd r'" "pull_cmd r \<noteq> images_cmd r'"
  by (simp_all add: docker_cmd_def version_cmd_def gpu_cmd_def images_cmd_def pull_cmd_def)

subsection \<open>Each step as a function of the environment's answer\<close>

lemma subprocess_run_eq:
  "subprocess_run E argv c w =
     (case exec E argv of
        Exited rc out \<Rightarrow>
          if rc \<noteq> 0 then (Inl (CalledProcessError rc), ran w [Exec argv])
          else (Inr (if c then out else []), ran w [Exec argv])
      | NoExecutable \<Rightarrow> (Inl FileNotFoundError, ran w [Exec argv])
      | SpawnFailed \<Rightarrow> (Inl OtherOSError, ran w [Exec argv]))"
  by (simp add: subprocess_run_def emit_ran split: proc_outcome.splits)

lemma check_docker_available_eq:
  "check_docker_available E w =
     (case exec E version_cmd of
        Exited rc out \<Rightarrow> (Inr (rc = 0), ran w [Call CheckDocker, Exec version_cmd])
      | NoExecutable \<Rightarrow> (Inr False, ran w [Call CheckDocker, Exec version_cmd])
      | SpawnFailed \<Rightarrow> (Inl OtherOSError, ran w [Call CheckDocker, Exec version_cmd]))"
  by (simp add: check_docker_available_def subprocess_run_eq emit_ran split: proc_outcome.splits)

lemma check_gpu_available_eq:
  "check_gpu_available E w =
     (case exec E gpu_cmd of
        Exited rc out \<Rightarrow> (Inr (rc = 0), ran w [Call CheckGpu, Exec gpu_cmd])
      | NoExecutable \<Rightarrow> (Inr False, ran w [Call CheckGpu, Exec gpu_cmd])
      | SpawnFailed \<Rightarrow> (Inl OtherOSError, ran w [Call CheckGpu, Exec gpu_cmd]))"
  by (simp add: check_gpu_available_def subprocess_run_eq emit_ran split: proc_outcome.splits)

lemma pull_docker_image_eq:
  "pull_docker_image r E w =
     (case exec E (pull_cmd r) of
        Exited rc out \<Rightarrow> (Inr (rc = 0), ran w [Call PullImage, Exec (pull_cmd r)])
      | NoExecutable \<Rightarrow> (Inl FileNotFoundError, ran w [Call PullImage, Exec (pull_cmd r)])
      | SpawnFailed \<Rightarrow> (Inl OtherOSError, ran w [Call PullImage, Exec (pull_cmd r)]))"
  by (simp add: pull_docker_image_def subprocess_run_eq emit_ran split: proc_outcome.splits)

lemma check_docker_image_exists_eq:
  "check_docker_image_exists r E w =
     (case exec E (images_cmd r) of
        Exited rc out \<Rightarrow>
          if rc \<noteq> 0 then (Inr False, ran w [Call CheckImage, Exec (images_cmd r)])
          else if strip out \<noteq> [] then (Inr True, ran w [Call CheckImage, Exec (images_cmd r)])
          else pull_docker_image r E (ran w [Call CheckImage, Exec (images_cmd r)])
      | NoExecutable \<Rightarrow> (Inl FileNotFoundError, ran w [Call CheckImage, Exec (images_cmd r)])
      | SpawnFailed \<Rightarrow> (Inl OtherOSError, ran w [Call CheckImage, Exec (images_cmd r)]))"
  by (simp add: check_docker_image_exists_def subprocess_run_eq pull_docker_image_eq emit_ran
      split: proc_outcome.splits)

lemma setup_data_directory_eq:
  "setup_data_directory r w =
     (case mkdir (files w) (data_dir r) True True of
        Inl e \<Rightarrow> (Inl e, ran w [Call SetupDataDir])
      | Inr fs' \<Rightarrow> (Inr (), (ran w [Call SetupDataDir])\<lparr>files := fs'\<rparr>))"
  by (simp add: setup_data_directory_def Let_def emit_ran split: sum.splits)

lemma copy_input_image_eq:
  "copy_input_image r E p w =
     (if \<not> path_exists (files w) p then (Inl FileNotFoundError, ran w [Call CopyInput])
      else case copy2 (files w) (fresh_stat E) p (data_dir r @ [''input.png'']) of
             Inl e \<Rightarrow> (Inl e, ran w [Call CopyInput])
           | Inr fs' \<Rightarrow>
               (Inr (data_dir r @ [''input.png'']), (ran w [Call CopyInput])\<lparr>files := fs'\<rparr>))"
  by (simp add: copy_input_image_def Let_def emit_ran split: sum.splits)

lemma generate_shape_eq:
  "generate_shape r E v w =
     (case exec E (docker_cmd r) of
        Exited rc out \<Rightarrow>
          if rc \<noteq> 0
          then (Inl (CalledProcessError rc),
                (ran w [Call GenerateShape, Exec (docker_cmd r)])\<lparr>files := container E (files w)\<rparr>)
          else if path_exists (container E (files w)) (data_dir r @ [''output_shape.glb''])
          then (Inr (data_dir r @ [''output_shape.glb'']),
                (ran w [Call GenerateShape, Exec (docker_cmd r)])\<lparr>files := container E (files w)\<rparr>)
          else (Inl (RuntimeError ''Output file was not created''),
                (ran w [Call GenerateShape, Exec (docker_cmd r)])\<lparr>files := container E (files w)\<rparr>)
      | NoExecutable \<Rightarrow> (Inl FileNotFoundError, ran w [Call GenerateShape, Exec (docker_cmd r)])
      | SpawnFailed \<Rightarrow> (Inl OtherOSError, ran w [Call GenerateShape, Exec (docker_cmd r)]))"
  by (simp add: generate_shape_def run_container_def subprocess_run_eq Let_def emit_ran
      split: proc_outcome.splits)

lemmas step_eqs = check_docker_available_eq check_gpu_available_eq check_docker_image_exists_eq
  pull_docker_image_eq setup_data_directory_eq copy_input_image_eq generate_shape_eq

subsection \<open>Making directories\<close>

lemma is_dir_exists: "is_dir fs p \<Longrightarrow> path_exists fs p"
  by (auto simp: is_dir_def path_exists_def)

lemma wf_prefix_is_dir:
  assumes "wf_fs fs" and "path_exists fs (p @ s)"
  shows "s \<noteq> [] \<Longrightarrow> is_dir fs p"
  using assms(2)
proof (induction s rule: rev_induct)
  case Nil
  then show ?case by simp
next
  case (snoc x xs)
  from assms(1) snoc.prems(2) have d: "is_dir fs (p @ xs)"
    unfolding wf_fs_def parent_def by (metis append_assoc butlast_snoc)
  show ?case
  proof (cases "xs = []")
    case True
    with d show ?thesis by simp
  next
    case False
    with snoc.IH d show ?thesis by (simp add: is_dir_exists)
  qed
qed

lemma wf_strict_prefix_is_dir:
  "wf_fs fs \<Longrightarrow> path_exists fs p \<Longrightarrow> strict_prefix q p \<Longrightarrow> is_dir fs q"
  by (metis wf_prefix_is_dir strict_prefixE' list.distinct(1))

lemma mkdir_existing_dir:
  assumes "wf_fs fs" and "is_dir fs p"
  shows "mkdir fs p parents True = Inr fs"
proof (cases "p = []")
  case True
  then show ?thesis
    by (subst mkdir.simps) (simp add: os_mkdir_def is_dir_def)
next
  case False
  from assms have "is_dir fs (parent p)"
    by (auto simp: wf_fs_def dest: is_dir_exists)
  with assms(2) False show ?thesis
    by (subst mkdir.simps) (simp add: os_mkdir_def is_dir_exists)
qed

lemma mkdirs_existing:
  assumes "wf_fs fs" and "path_exists fs p"
  shows "mkdirs fs p = fs"
proof
  fix q
  show "mkdirs fs p q = fs q"
  proof (cases "prefix q p \<and> q \<noteq> [] \<and> fs q = None")
    case True
    then have "q = p \<or> strict_prefix q p" by (auto simp: strict_prefix_def)
    with assms True have "path_exists fs q"
      by (auto dest: wf_strict_prefix_is_dir is_dir_exists)
    with True show ?thesis by (simp add: path_exists_def)
  next
    case False
    then show ?thesis by (auto simp: mkdirs_def)
  qed
qed

lemma unblocked_parent: "unblocked fs (ps @ [c]) \<Longrightarrow> unblocked fs ps"
  by (auto simp: unblocked_def)

lemma mkdirs_snoc:
  assumes "fs (ps @ [c]) = None"
  shows "(mkdirs fs ps)(ps @ [c] \<mapsto> Dir) = mkdirs fs (ps @ [c])"
  using assms by (auto simp: mkdirs_def fun_eq_iff)

lemma mkdirs_is_dir:
  "unblocked fs p \<Longrightarrow> prefix q p \<Longrightarrow> is_dir (mkdirs fs p) q"
  by (auto simp: unblocked_def mkdirs_def is_dir_def path_exists_def)

lemma mkdir_creates:
  assumes "wf_fs fs" and "unblocked fs p"
  shows "mkdir fs p True True = Inr (mkdirs fs p)"
  using assms(2)
proof (induction p rule: rev_induct)
  case Nil
  then show ?case
    using assms(1) by (simp add: mkdir_existing_dir is_dir_def mkdirs_existing path_exists_def)
next
  case (snoc c ps)
  let ?p = "ps @ [c]"
  show ?case
  proof (cases "path_exists fs ?p")
    case True
    with snoc.prems have "is_dir fs ?p" by (auto simp: unblocked_def)
    with assms(1) True show ?thesis
      by (simp add: mkdir_existing_dir mkdirs_existing)
  next
    case False
    then have none: "fs ?p = None" by (simp add: path_exists_def)
    from snoc.prems have ub: "unblocked fs ps" by (rule unblocked_parent)
    show ?thesis
    proof (cases "path_exists fs ps")
      case True
      with ub have d: "is_dir fs ps" by (auto simp: unblocked_def)
      from assms(1) True have "mkdirs fs ps = fs" by (rule mkdirs_existing)
      with mkdirs_snoc [of fs ps c] none have "fs(?p \<mapsto> Dir) = mkdirs fs ?p" by simp
      with True d False show ?thesis
        by (subst mkdir.simps) (simp add: os_mkdir_def parent_def)
    next
      case False
      from snoc.IH ub have ih: "mkdir fs ps True True = Inr (mkdirs fs ps)" by simp
      have d: "is_dir (mkdirs fs ps) ps" using ub by (simp add: mkdirs_is_dir)
      have n: "\<not> path_exists (mkdirs fs ps) ?p"
        using none by (simp add: mkdirs_def path_exists_def)
      have step: "mkdir (mkdirs fs ps) ?p False True = Inr ((mkdirs fs ps)(?p \<mapsto> Dir))"
        using d n by (subst mkdir.simps) (simp add: os_mkdir_def parent_def is_dir_exists)
      from False ih step show ?thesis
        using mkdirs_snoc [of fs ps c] none
        by (subst mkdir.simps) (simp add: os_mkdir_def parent_def)
    qed
  qed
qed

lemma wf_mkdirs:
  assumes "wf_fs fs" and "unblocked fs p"
  shows "wf_fs (mkdirs fs p)"
  unfolding wf_fs_def
proof (intro allI impI)
  fix q
  assume e: "path_exists (mkdirs fs p) q"
  show "is_dir (mkdirs fs p) (parent q)"
  proof (cases "path_exists fs q")
    case True
    with assms(1) have "is_dir fs (parent q)" by (simp add: wf_fs_def)
    then show ?thesis by (auto simp: is_dir_def mkdirs_def)
  next
    case False
    with e have "prefix q p" by (auto simp: mkdirs_def path_exists_def split: if_splits)
    then have "prefix (parent q) p"
      unfolding parent_def by (metis prefix_order.dual_order.trans prefixeq_butlast)
    with assms(2) show ?thesis by (rule mkdirs_is_dir)
  qed
qed

subsection \<open>The full run\<close>

lemma run_returns_iff:
  "(\<exists>p. fst (run (Hunyuan3DRunner (docker_image_arg a) (output_dir a)) E (input_image a) v
             \<lparr>files = fs0, trace = []\<rparr>) = Inr p) = full_run_succeeds a E fs0"
  by (auto simp: run_def full_run_succeeds_def image_resolved_def succeeded_def step_eqs
      sys_exit_def Let_def
      split: proc_outcome.splits sum.splits if_splits)

lemma os_mkdir_error:
  "os_mkdir fs p = Inl e \<Longrightarrow> e = FileNotFoundError \<or> e = FileExistsError \<or> e = NotADirectoryError"
  by (auto simp: os_mkdir_def split: if_splits)

lemma mkdir_error:
  "mkdir fs p a b = Inl e \<Longrightarrow> e = FileNotFoundError \<or> e = FileExistsError \<or> e = NotADirectoryError"
proof (induction fs p a b rule: mkdir.induct)
  case (1 fs p parents exist_ok)
  from "1.prems" show ?case
    apply (subst (asm) mkdir.simps)
    apply (auto split: sum.splits if_splits dest: os_mkdir_error "1.IH")
    done
qed

lemma copy2_error: "copy2 fs st src dst = Inl e \<Longrightarrow> is_Exception e"
  by (auto simp: copy2_def copyfile_def open_wb_def Let_def split: if_splits sum.splits option.splits node.splits)

lemma mkdir_is_Exception: "mkdir fs p a b = Inl e \<Longrightarrow> is_Exception e"
  by (auto dest: mkdir_error)

lemma run_raises:
  "fst (run r E p v w) = Inl e \<Longrightarrow> is_Exception e \<or> e = SystemExit 1"
  by (auto simp: run_def step_eqs sys_exit_def
      dest: mkdir_is_Exception copy2_error
      split: proc_outcome.splits sum.splits if_splits)

lemma main_full_exit:
  assumes "\<not> test a"
  shows "fst (main a E fs0) =
     (case fst (run (Hunyuan3DRunner (docker_image_arg a) (output_dir a)) E (input_image a)
                 (\<not> quiet a) \<lparr>files = fs0, trace = []\<rparr>) of
        Inr _ \<Rightarrow> 0 | Inl _ \<Rightarrow> 1)"
  using assms
    run_raises [of "Hunyuan3DRunner (docker_image_arg a) (output_dir a)" E "input_image a"
      "\<not> quiet a" "\<lparr>files = fs0, trace = []\<rparr>"]
  by (auto simp: main_def Let_def split: prod.splits sum.splits)

lemma main_full_world:
  "\<not> test a \<Longrightarrow>
     snd (main a E fs0) =
     snd (run (Hunyuan3DRunner (docker_image_arg a) (output_dir a)) E (input_image a)
            (\<not> quiet a) \<lparr>files = fs0, trace = []\<rparr>)"
  by (auto simp: main_def Let_def split: prod.splits sum.splits)

lemma data_dir_runner [simp]: "data_dir (Hunyuan3DRunner img d) = d"
  by (simp add: Hunyuan3DRunner_def)

subsection \<open>What making the workspace can change\<close>

lemma os_mkdir_adds_dir:
  "os_mkdir fs p = Inr fs' \<Longrightarrow> fs' q = fs q \<or> (fs q = None \<and> fs' q = Some Dir)"
  by (auto simp: os_mkdir_def path_exists_def split: if_splits)

lemma mkdir_adds_dirs:
  "mkdir fs p a b = Inr fs' \<Longrightarrow> fs' q = fs q \<or> (fs q = None \<and> fs' q = Some Dir)"
proof (induction fs p a b arbitrary: fs' rule: mkdir.induct)
  case (1 fs p parents exist_ok)
  show ?case
  proof (cases "os_mkdir fs p")
    case (Inr fs1)
    with "1.prems" have "fs' = fs1" by (subst (asm) mkdir.simps) simp
    with Inr show ?thesis by (auto dest: os_mkdir_adds_dir)
  next
    case (Inl e)
    show ?thesis
    proof (cases "e = FileNotFoundError")
      case False
      with Inl "1.prems" have "fs' = fs"
        by (subst (asm) mkdir.simps) (simp split: if_splits)
      then show ?thesis by simp
    next
      case True
      with Inl "1.prems" have np: "\<not> (\<not> parents \<or> parent p = p)"
        by (subst (asm) mkdir.simps) (auto split: if_splits)
      from True Inl "1.prems" np obtain fs1 where
        a: "mkdir fs (parent p) True True = Inr fs1" and b: "mkdir fs1 p False exist_ok = Inr fs'"
        by (subst (asm) mkdir.simps) (auto split: sum.splits)
      from "1.IH"(1) [OF Inl True np a] have s1: "fs1 q = fs q \<or> (fs q = None \<and> fs1 q = Some Dir)" .
      from "1.IH"(2) [OF Inl True np a b] have s2: "fs' q = fs1 q \<or> (fs1 q = None \<and> fs' q = Some Dir)" .
      from s1 s2 show ?thesis by auto
    qed
  qed
qed

lemma copy2_dir_source: "fs src = Some Dir \<Longrightarrow> copy2 fs st src dst \<noteq> Inr fs'"
  by (auto simp: copy2_def copyfile_def Let_def split: sum.splits if_splits)

lemma no_staging_of_missing_input:
  assumes "\<not> path_exists fs0 p" and "mkdir fs0 d a b = Inr fs1" and "path_exists fs1 p"
  shows "copy2 fs1 st p dst \<noteq> Inr fs2"
proof -
  from assms(1) have "p \<noteq> []" "fs0 p = None" by (auto simp: path_exists_def)
  with mkdir_adds_dirs [OF assms(2), of p] assms(3) have "fs1 p = Some Dir"
    by (auto simp: path_exists_def)
  then show ?thesis by (rule copy2_dir_source)
qed

subsection \<open>The sample inputs, evaluated\<close>

lemma mkdir_home:
  "mkdir fs_home [''home'', ''u'', ''hunyuan_data''] True True
     = Inr (fs_home([''home'', ''u'', ''hunyuan_data''] \<mapsto> Dir))"
  by (subst mkdir.simps)
     (simp add: os_mkdir_def parent_def path_exists_def is_dir_def fs_home_def)

lemma full_run_succeeds_sample: "full_run_succeeds args_full env_ok fs_home"
  apply (simp add: full_run_succeeds_def Let_def args_full_def Hunyuan3DRunner_def mkdir_home)
  apply (simp add: env_ok_def succeeded_def image_resolved_def strip_def py_isspace_def
      copy2_def copyfile_def copystat_def open_wb_def samefile_def
      path_exists_def is_dir_def parent_def fs_home_def)
  done

lemma full_run_fails_sample: "\<not> full_run_succeeds args_full env_silent fs_home"
  apply (simp add: full_run_succeeds_def Let_def args_full_def Hunyuan3DRunner_def mkdir_home)
  apply (simp add: env_ok_def env_silent_def succeeded_def image_resolved_def strip_def
      py_isspace_def copy2_def copyfile_def copystat_def open_wb_def samefile_def
      path_exists_def is_dir_def parent_def fs_home_def)
  done

lemma copy2_home:
  "copy2 (fs_home([''home'', ''u'', ''hunyuan_data''] \<mapsto> Dir)) st
         [''home'', ''u'', ''cat.jpg''] [''home'', ''u'', ''hunyuan_data'', ''input.png'']
     = Inr (fs_home([''home'', ''u'', ''hunyuan_data''] \<mapsto> Dir,
                    [''home'', ''u'', ''hunyuan_data'', ''input.png''] \<mapsto> File ''JFIF'' st644))"
  by (simp add: copy2_def copyfile_def copystat_def open_wb_def samefile_def
      path_exists_def is_dir_def parent_def fs_home_def Let_def)

lemma run_silent_sample:
  "run runner0 env_silent [''home'', ''u'', ''cat.jpg''] True \<lparr>files = fs_home, trace = []\<rparr>
     = (Inl (RuntimeError ''Output file was not created''),
        \<lparr>files = fs_home([''home'', ''u'', ''hunyuan_data''] \<mapsto> Dir,
                   [''home'', ''u'', ''hunyuan_data'', ''input.png''] \<mapsto> File ''JFIF'' st644),
         trace = [Call CheckDocker, Exec version_cmd, Call CheckGpu, Exec gpu_cmd,
                  Call CheckImage, Exec (images_cmd runner0),
                  Call SetupDataDir, Call CopyInput,
                  Call GenerateShape, Exec (docker_cmd runner0)]\<rparr>)"
  apply (simp add: run_def step_eqs env_silent_def env_ok_def strip_def py_isspace_def
      runner0_def Hunyuan3DRunner_def mkdir_home copy2_home ran_def)
  apply (simp add: path_exists_def fs_home_def)
  done

lemma main_silent_sample:
  "main args_full env_silent fs_home
     = (1, \<lparr>files = fs_home([''home'', ''u'', ''hunyuan_data''] \<mapsto> Dir,
                   [''home'', ''u'', ''hunyuan_data'', ''input.png''] \<mapsto> File ''JFIF'' st644),
             trace = [Call CheckDocker, Exec version_cmd, Call CheckGpu, Exec gpu_cmd,
                  Call CheckImage, Exec (images_cmd runner0),
                  Call SetupDataDir, Call CopyInput,
                  Call GenerateShape, Exec (docker_cmd runner0)]\<rparr>)"
  using run_silent_sample
  by (simp add: main_def args_full_def Let_def runner0_def)

lemma main_no_image_sample:
  "main args_full env_no_image fs_home
     = (1, \<lparr>files = fs_home,
             trace = [Call CheckDocker, Exec version_cmd, Call CheckGpu, Exec gpu_cmd,
                      Call CheckImage, Exec (images_cmd runner0),
                      Call PullImage, Exec (pull_cmd runner0)]\<rparr>)"
  by (simp add: main_def args_full_def Let_def run_def step_eqs sys_exit_def ran_def
      env_no_image_def env_silent_def env_ok_def strip_def py_isspace_def
      runner0_def Hunyuan3DRunner_def version_cmd_def gpu_cmd_def images_cmd_def pull_cmd_def)

lemma wf_fs_home: "wf_fs fs_home"
  by (auto simp: wf_fs_def fs_home_def path_exists_def is_dir_def parent_def split: if_splits)

lemma prefix_of_4:
  "prefix q [a, b, c, d] \<longleftrightarrow> q = [] \<or> q = [a] \<or> q = [a, b] \<or> q = [a, b, c] \<or> q = [a, b, c, d]"
  by (auto simp: prefix_Cons)

lemma prefix_of_3:
  "prefix q [a, b, c] \<longleftrightarrow> q = [] \<or> q = [a] \<or> q = [a, b] \<or> q = [a, b, c]"
  by (auto simp: prefix_Cons)

lemma unblocked_deep: "unblocked fs_home [''home'', ''u'', ''out'', ''run1'']"
  by (auto simp: unblocked_def prefix_of_4 fs_home_def path_exists_def is_dir_def)

lemma mkdir_blocked:
  "mkdir fs_home [''home'', ''u'', ''cat.jpg'', ''out''] True True = Inl NotADirectoryError"
  by (subst mkdir.simps)
     (simp add: os_mkdir_def parent_def path_exists_def is_dir_def fs_home_def)

lemma unblocked_home: "unblocked fs_home [''home'', ''u'', ''hunyuan_data'']"
  by (auto simp: unblocked_def prefix_of_3 fs_home_def path_exists_def is_dir_def)

section \<open>The claims\<close>

text \<open>
  C1. When the container exits with status 0 and \<open>output_shape.glb\<close> is not in the
  workspace afterwards, \<open>generate_shape\<close> raises \<open>RuntimeError\<close>, which is not the
  \<open>CalledProcessError\<close> it raises when the container exits with a nonzero status; and
  a full run in which that happens ends with that \<open>RuntimeError\<close> and exit status 1.
\<close>

theorem silent_container_failure_is_distinct:
  "(exec E (docker_cmd r) = Exited 0 out \<and>
    \<not> path_exists (container E (files w)) (data_dir r @ [''output_shape.glb'']) \<longrightarrow>
      fst (generate_shape r E v w) = Inl (RuntimeError ''Output file was not created'') \<and>
      \<not> is_CalledProcessError (RuntimeError ''Output file was not created''))
   \<and> (exec E (docker_cmd r) = Exited rc out' \<and> rc \<noteq> 0 \<longrightarrow>
      fst (generate_shape r E v w) = Inl (CalledProcessError rc) \<and>
      is_CalledProcessError (CalledProcessError rc))
   \<and> (\<not> test a \<and>
      Call GenerateShape \<in> set (trace (snd (main a E fs0))) \<and>
      exec E (docker_cmd (Hunyuan3DRunner (docker_image_arg a) (output_dir a))) = Exited 0 out \<and>
      \<not> path_exists (files (snd (main a E fs0))) (output_dir a @ [''output_shape.glb'']) \<longrightarrow>
      fst (run (Hunyuan3DRunner (docker_image_arg a) (output_dir a)) E (input_image a)
             (\<not> quiet a) \<lparr>files = fs0, trace = []\<rparr>)
        = Inl (RuntimeError ''Output file was not created'') \<and>
      fst (main a E fs0) = 1)"
proof (intro conjI impI)
  let ?r = "Hunyuan3DRunner (docker_image_arg a) (output_dir a)"
  let ?run = "run ?r E (input_image a) (\<not> quiet a) \<lparr>files = fs0, trace = []\<rparr>"
  assume h: "\<not> test a \<and> Call GenerateShape \<in> set (trace (snd (main a E fs0))) \<and>
      exec E (docker_cmd ?r) = Exited 0 out \<and>
      \<not> path_exists (files (snd (main a E fs0))) (output_dir a @ [''output_shape.glb''])"
  then have nt: "\<not> test a" by simp
  note m = main_full_world [OF nt, of E fs0]
  from h have g: "Call GenerateShape \<in> set (trace (snd ?run))"
    by (simp add: m)
  from h have n: "\<not> path_exists (files (snd ?run)) (output_dir a @ [''output_shape.glb''])"
    by (simp add: m)
  from h g n show r: "fst ?run = Inl (RuntimeError ''Output file was not created'')"
    by (auto simp: run_def step_eqs sys_exit_def
        split: proc_outcome.splits sum.splits if_splits)
  from h r main_full_exit [of a E fs0] show "fst (main a E fs0) = 1"
    by simp
qed (simp_all add: generate_shape_eq)

theorem silent_container_failure_is_distinct_witness:
  "exec env_silent (docker_cmd runner0) = Exited 0 ''ok''
   \<and> fst (generate_shape runner0 env_silent True \<lparr>files = fs_home, trace = []\<rparr>)
       = Inl (RuntimeError ''Output file was not created'')
   \<and> fst (generate_shape runner0 env_failing True \<lparr>files = fs_home, trace = []\<rparr>)
       = Inl (CalledProcessError 1)
   \<and> Call GenerateShape \<in> set (trace (snd (main args_full env_silent fs_home)))
   \<and> \<not> path_exists (files (snd (main args_full env_silent fs_home)))
          [''home'', ''u'', ''hunyuan_data'', ''output_shape.glb'']
   \<and> fst (main args_full env_silent fs_home) = 1"
  using
    silent_container_failure_is_distinct [of env_silent runner0 "''ok''"
      "\<lparr>files = fs_home, trace = []\<rparr>" True 1 "[]" args_full fs_home]
    silent_container_failure_is_distinct [of env_failing runner0 "''ok''"
      "\<lparr>files = fs_home, trace = []\<rparr>" True 1 "[]" args_full fs_home]
  apply (simp add: main_silent_sample)
  apply (simp add: env_silent_def env_ok_def env_failing_def args_full_def runner0_def
      Hunyuan3DRunner_def path_exists_def fs_home_def)
  done

text \<open>
  C2. In every invocation of \<open>run\<close> in which \<open>check_docker_available\<close> returns
  \<open>False\<close>, \<open>run\<close> ends in \<open>sys.exit(1)\<close> right there: the trace holds the runtime
  check and nothing else, the file system is untouched, and the process started
  without \<open>--test\<close> exits with status 1.
\<close>

theorem docker_unavailable_aborts:
  "(fst (check_docker_available E w) = Inr False \<longrightarrow>
      fst (run r E p v w) = Inl (SystemExit 1) \<and>
      trace (snd (run r E p v w)) = trace w @ [Call CheckDocker, Exec version_cmd] \<and>
      files (snd (run r E p v w)) = files w)
   \<and> (\<not> test a \<and> fst (check_docker_available E \<lparr>files = fs0, trace = []\<rparr>) = Inr False \<longrightarrow>
      fst (main a E fs0) = 1 \<and>
      trace (snd (main a E fs0)) = [Call CheckDocker, Exec version_cmd] \<and>
      files (snd (main a E fs0)) = fs0)"
  by (auto simp: main_def Let_def run_def check_docker_available_eq sys_exit_def
      split: proc_outcome.splits)

theorem docker_unavailable_aborts_witness:
  "fst (check_docker_available env_no_docker \<lparr>files = fs_home, trace = []\<rparr>) = Inr False
   \<and> fst (main args_full env_no_docker fs_home) = 1
   \<and> trace (snd (main args_full env_no_docker fs_home)) = [Call CheckDocker, Exec version_cmd]
   \<and> files (snd (main args_full env_no_docker fs_home)) = fs_home"
  using docker_unavailable_aborts [of env_no_docker "\<lparr>files = fs_home, trace = []\<rparr>" runner0
      "[''home'', ''u'', ''cat.jpg'']" True args_full fs_home]
  by (simp add: check_docker_available_eq env_no_docker_def args_full_def)

text \<open>
  C3. When the input path does not exist, \<open>copy_input_image\<close> raises
  \<open>FileNotFoundError\<close> and leaves the file system as it was; and a full run started on
  a file system where the input path does not exist exits with status 1 without ever
  calling \<open>generate_shape\<close> or starting the container.
\<close>

theorem missing_input_fails_before_container:
  "(\<not> path_exists (files w) p \<longrightarrow>
      fst (copy_input_image r E p w) = Inl FileNotFoundError \<and>
      files (snd (copy_input_image r E p w)) = files w)
   \<and> (\<not> test a \<and> \<not> path_exists fs0 (input_image a) \<longrightarrow>
      fst (main a E fs0) = 1 \<and>
      Call GenerateShape \<notin> set (trace (snd (main a E fs0))) \<and>
      Exec (docker_cmd (Hunyuan3DRunner (docker_image_arg a) (output_dir a)))
        \<notin> set (trace (snd (main a E fs0))))"
proof (intro conjI impI)
  assume "\<not> path_exists (files w) p"
  then show "fst (copy_input_image r E p w) = Inl FileNotFoundError"
    and "files (snd (copy_input_image r E p w)) = files w"
    by (simp_all add: copy_input_image_eq)
next
  let ?r = "Hunyuan3DRunner (docker_image_arg a) (output_dir a)"
  let ?w = "\<lparr>files = fs0, trace = []\<rparr>"
  assume h: "\<not> test a \<and> \<not> path_exists fs0 (input_image a)"
  then have nr: "\<And>p. fst (run ?r E (input_image a) (\<not> quiet a) ?w) \<noteq> Inr p"
    by (auto simp: run_def step_eqs sys_exit_def
        dest: no_staging_of_missing_input
        split: proc_outcome.splits sum.splits if_splits)
  from h main_full_exit [of a E fs0] nr show "fst (main a E fs0) = 1"
    by (auto split: sum.splits)
  from h have m: "snd (main a E fs0) = snd (run ?r E (input_image a) (\<not> quiet a) ?w)"
    by (auto simp: main_def Let_def split: prod.splits sum.splits)
  from h show "Call GenerateShape \<notin> set (trace (snd (main a E fs0)))"
    unfolding m
    by (auto simp: run_def step_eqs sys_exit_def
        dest: no_staging_of_missing_input
        split: proc_outcome.splits sum.splits if_splits)
  from h show "Exec (docker_cmd ?r) \<notin> set (trace (snd (main a E fs0)))"
    unfolding m
    by (auto simp: run_def step_eqs sys_exit_def
        dest: no_staging_of_missing_input
        split: proc_outcome.splits sum.splits if_splits)
qed

theorem missing_input_fails_before_container_witness:
  "\<not> path_exists fs_home [''home'', ''u'', ''nope.png'']
   \<and> fst (copy_input_image runner0 env_ok [''home'', ''u'', ''nope.png'']
            \<lparr>files = fs_home, trace = []\<rparr>) = Inl FileNotFoundError
   \<and> fst (main args_missing env_ok fs_home) = 1
   \<and> Call GenerateShape \<notin> set (trace (snd (main args_missing env_ok fs_home)))
   \<and> Exec (docker_cmd runner0) \<notin> set (trace (snd (main args_missing env_ok fs_home)))"
  using missing_input_fails_before_container [of "\<lparr>files = fs_home, trace = []\<rparr>"
      "[''home'', ''u'', ''nope.png'']" runner0 env_ok args_missing fs_home]
  by (simp add: path_exists_def fs_home_def args_missing_def args_full_def runner0_def)

text \<open>
  C4. In a full run where the image listing comes back empty and the pull does not
  exit with 0, the process exits with status 1, the file system is as it was (the
  workspace is not created, \<open>setup_data_directory\<close> is not called), and a run that
  reached the image check stops right after the pull.
\<close>

theorem unresolved_image_aborts_before_workspace:
  "\<not> test a \<and>
   exec E (images_cmd (Hunyuan3DRunner (docker_image_arg a) (output_dir a))) = Exited 0 out \<and>
   strip out = [] \<and>
   \<not> succeeded (exec E (pull_cmd (Hunyuan3DRunner (docker_image_arg a) (output_dir a)))) \<longrightarrow>
     fst (main a E fs0) = 1 \<and>
     files (snd (main a E fs0)) = fs0 \<and>
     Call SetupDataDir \<notin> set (trace (snd (main a E fs0))) \<and>
     (Call CheckImage \<in> set (trace (snd (main a E fs0))) \<longrightarrow>
        trace (snd (main a E fs0)) =
          [Call CheckDocker, Exec version_cmd, Call CheckGpu, Exec gpu_cmd,
           Call CheckImage, Exec (images_cmd (Hunyuan3DRunner (docker_image_arg a) (output_dir a))),
           Call PullImage, Exec (pull_cmd (Hunyuan3DRunner (docker_image_arg a) (output_dir a)))])"
proof (intro impI)
  let ?r = "Hunyuan3DRunner (docker_image_arg a) (output_dir a)"
  let ?run = "run ?r E (input_image a) (\<not> quiet a) \<lparr>files = fs0, trace = []\<rparr>"
  assume h: "\<not> test a \<and> exec E (images_cmd ?r) = Exited 0 out \<and> strip out = [] \<and>
     \<not> succeeded (exec E (pull_cmd ?r))"
  then have nt: "\<not> test a" by simp
  note m = main_full_world [OF nt, of E fs0]
  from h have "\<not> full_run_succeeds a E fs0"
    by (simp add: full_run_succeeds_def image_resolved_def Let_def)
  with nt main_full_exit [of a E fs0] run_returns_iff [of a E "\<not> quiet a" fs0]
  have e: "fst (main a E fs0) = 1" by (auto split: sum.splits)
  from h have f: "files (snd ?run) = fs0"
    by (auto simp: run_def step_eqs sys_exit_def succeeded_def split: proc_outcome.splits)
  from h have s: "Call SetupDataDir \<notin> set (trace (snd ?run))"
    by (auto simp: run_def step_eqs sys_exit_def succeeded_def split: proc_outcome.splits)
  from h have t: "Call CheckImage \<in> set (trace (snd ?run)) \<longrightarrow>
        trace (snd ?run) =
          [Call CheckDocker, Exec version_cmd, Call CheckGpu, Exec gpu_cmd,
           Call CheckImage, Exec (images_cmd ?r), Call PullImage, Exec (pull_cmd ?r)]"
    by (auto simp: run_def step_eqs sys_exit_def succeeded_def split: proc_outcome.splits)
  from e f s t show "fst (main a E fs0) = 1 \<and> files (snd (main a E fs0)) = fs0 \<and>
     Call SetupDataDir \<notin> set (trace (snd (main a E fs0))) \<and>
     (Call CheckImage \<in> set (trace (snd (main a E fs0))) \<longrightarrow>
        trace (snd (main a E fs0)) =
          [Call CheckDocker, Exec version_cmd, Call CheckGpu, Exec gpu_cmd,
           Call CheckImage, Exec (images_cmd ?r), Call PullImage, Exec (pull_cmd ?r)])"
    by (simp add: m)
qed

theorem unresolved_image_aborts_before_workspace_witness:
  "\<not> test args_full
   \<and> exec env_no_image (images_cmd runner0) = Exited 0 ''\<newline>''
   \<and> strip ''\<newline>'' = []
   \<and> \<not> succeeded (exec env_no_image (pull_cmd runner0))
   \<and> fst (main args_full env_no_image fs_home) = 1
   \<and> files (snd (main args_full env_no_image fs_home)) = fs_home
   \<and> \<not> path_exists (files (snd (main args_full env_no_image fs_home)))
          [''home'', ''u'', ''hunyuan_data'']
   \<and> trace (snd (main args_full env_no_image fs_home)) =
          [Call CheckDocker, Exec version_cmd, Call CheckGpu, Exec gpu_cmd,
           Call CheckImage, Exec (images_cmd runner0), Call PullImage, Exec (pull_cmd runner0)]"
  using unresolved_image_aborts_before_workspace [of args_full env_no_image "''\<newline>''" fs_home]
  apply (simp add: main_no_image_sample)
  apply (simp add: args_full_def env_no_image_def env_silent_def env_ok_def succeeded_def
      strip_def py_isspace_def runner0_def Hunyuan3DRunner_def images_cmd_def pull_cmd_def
      path_exists_def fs_home_def)
  done

text \<open>
  C5. A full run (no \<open>--test\<close>) exits with status 0 when \<open>run\<close> returns, which it
  does exactly when every step succeeds, and with status 1 otherwise: when the runtime
  is missing, the image cannot be resolved, staging fails, the container fails or
  leaves no output, and for any exception that comes out of \<open>run\<close>.
\<close>

theorem full_run_exit_status:
  "\<not> test a \<longrightarrow>
     fst (main a E fs0) = (if full_run_succeeds a E fs0 then 0 else 1)
     \<and> ((\<exists>p. fst (run (Hunyuan3DRunner (docker_image_arg a) (output_dir a)) E (input_image a)
                   (\<not> quiet a) \<lparr>files = fs0, trace = []\<rparr>) = Inr p)
          \<longleftrightarrow> full_run_succeeds a E fs0)
     \<and> ((\<exists>e. fst (run (Hunyuan3DRunner (docker_image_arg a) (output_dir a)) E (input_image a)
                   (\<not> quiet a) \<lparr>files = fs0, trace = []\<rparr>) = Inl e)
          \<longleftrightarrow> fst (main a E fs0) = 1)"
  using main_full_exit [of a E fs0] run_returns_iff [of a E "\<not> quiet a" fs0]
  by (auto split: sum.splits)

theorem full_run_exit_status_witness:
  "\<not> test args_full
   \<and> full_run_succeeds args_full env_ok fs_home
   \<and> fst (main args_full env_ok fs_home) = 0
   \<and> \<not> full_run_succeeds args_full env_silent fs_home
   \<and> fst (main args_full env_silent fs_home) = 1"
  using full_run_exit_status [of args_full env_ok fs_home]
    full_run_exit_status [of args_full env_silent fs_home]
    full_run_succeeds_sample full_run_fails_sample
  by (simp add: args_full_def)

text \<open>
  C6, as the claim states it, fails for the source file that is the staged file itself:
  it exists, and \<open>shutil.copy2\<close> refuses to copy a file onto itself, so
  \<open>copy_input_image\<close> raises \<open>SameFileError\<close> and returns no path.
\<close>

theorem staging_same_file_counterexample:
  "path_exists fs_staged [''home'', ''u'', ''hunyuan_data'', ''input.png'']
   \<and> fs_staged [''home'', ''u'', ''hunyuan_data'', ''input.png''] = Some (File ''JFIF'' st644)
   \<and> fst (copy_input_image runner0 env_ok [''home'', ''u'', ''hunyuan_data'', ''input.png'']
            \<lparr>files = fs_staged, trace = []\<rparr>) = Inl SameFileError"
  by (simp add: copy_input_image_eq copy2_def copyfile_def samefile_def Let_def
      runner0_def Hunyuan3DRunner_def path_exists_def is_dir_def fs_staged_def fs_ready_def
      fs_home_def)

text \<open>
  C6, amended. For every existing regular source file other than the staged file itself,
  whatever its name, when the workspace directory exists and \<open>input.png\<close> in it is not
  a directory, \<open>copy_input_image\<close> returns the staged path (the workspace directory
  joined with \<open>input.png\<close>) and leaves there a file with the source's bytes and the
  source's metadata, every other path being as it was.
\<close>

theorem staging_copies_source:
  "src \<noteq> [] \<and> files w src = Some (File bytes st) \<and>
   is_dir (files w) (data_dir r) \<and>
   \<not> is_dir (files w) (data_dir r @ [''input.png'']) \<and>
   src \<noteq> data_dir r @ [''input.png''] \<longrightarrow>
     copy_input_image r E src w =
       (Inr (data_dir r @ [''input.png'']),
        w\<lparr>trace := trace w @ [Call CopyInput],
          files := (files w)(data_dir r @ [''input.png''] \<mapsto> File bytes st)\<rparr>)"
  by (auto simp: copy_input_image_eq copy2_def copyfile_def copystat_def open_wb_def
      samefile_def Let_def parent_def path_exists_def is_dir_def ran_def)

theorem staging_copies_source_witness:
  "fs_ready [''home'', ''u'', ''cat.jpg''] = Some (File ''JFIF'' st644)
   \<and> is_dir fs_ready (data_dir runner0)
   \<and> \<not> is_dir fs_ready (data_dir runner0 @ [''input.png''])
   \<and> copy_input_image runner0 env_ok [''home'', ''u'', ''cat.jpg'']
        \<lparr>files = fs_ready, trace = []\<rparr>
      = (Inr [''home'', ''u'', ''hunyuan_data'', ''input.png''],
         \<lparr>files = fs_staged, trace = [Call CopyInput]\<rparr>)"
  using staging_copies_source [of "[''home'', ''u'', ''cat.jpg'']"
      "\<lparr>files = fs_ready, trace = []\<rparr>" "''JFIF''" st644 runner0 env_ok]
  by (simp add: runner0_def Hunyuan3DRunner_def is_dir_def fs_staged_def fs_ready_def fs_home_def)

text \<open>
  C7, as the claim states it, fails where the workspace path runs through a regular
  file: the directory does not exist, and \<open>setup_data_directory\<close> raises
  \<open>NotADirectoryError\<close> and creates nothing.
\<close>

theorem setup_blocked_counterexample:
  "\<not> path_exists fs_home (data_dir runner_blocked)
   \<and> fst (setup_data_directory runner_blocked \<lparr>files = fs_home, trace = []\<rparr>)
        = Inl NotADirectoryError
   \<and> \<not> is_dir (files (snd (setup_data_directory runner_blocked \<lparr>files = fs_home, trace = []\<rparr>)))
          (data_dir runner_blocked)"
  apply (simp add: setup_data_directory_eq runner_blocked_def mkdir_blocked)
  apply (simp add: path_exists_def is_dir_def fs_home_def)
  done

text \<open>
  C7, amended. On a file system that is a tree, when no prefix of the workspace path is
  taken by something that is no directory, \<open>setup_data_directory\<close> returns normally and
  leaves a directory at the workspace path and at each of its prefixes, changing nothing
  that existed and nothing off that path; if the workspace directory was already there
  the file system is left exactly as it was; and running it a second time returns
  normally and changes nothing.
\<close>

theorem setup_creates_and_is_idempotent:
  "wf_fs (files w) \<and> unblocked (files w) (data_dir r) \<longrightarrow>
     fst (setup_data_directory r w) = Inr ()
     \<and> (\<forall>q. prefix q (data_dir r) \<longrightarrow> is_dir (files (snd (setup_data_directory r w))) q)
     \<and> (\<forall>q. path_exists (files w) q \<or> \<not> prefix q (data_dir r) \<longrightarrow>
              files (snd (setup_data_directory r w)) q = files w q)
     \<and> (is_dir (files w) (data_dir r) \<longrightarrow> files (snd (setup_data_directory r w)) = files w)
     \<and> fst (setup_data_directory r (snd (setup_data_directory r w))) = Inr ()
     \<and> files (snd (setup_data_directory r (snd (setup_data_directory r w))))
          = files (snd (setup_data_directory r w))"
proof (intro impI)
  assume h: "wf_fs (files w) \<and> unblocked (files w) (data_dir r)"
  let ?fs = "files w" and ?d = "data_dir r"
  from h have mk: "mkdir ?fs ?d True True = Inr (mkdirs ?fs ?d)"
    by (simp add: mkdir_creates)
  then have r1: "fst (setup_data_directory r w) = Inr ()"
    and f1: "files (snd (setup_data_directory r w)) = mkdirs ?fs ?d"
    by (simp_all add: setup_data_directory_eq)
  from h have wf': "wf_fs (mkdirs ?fs ?d)" by (simp add: wf_mkdirs)
  from h have d': "is_dir (mkdirs ?fs ?d) ?d" by (simp add: mkdirs_is_dir)
  from wf' d' have mk2: "mkdir (mkdirs ?fs ?d) ?d True True = Inr (mkdirs ?fs ?d)"
    by (rule mkdir_existing_dir)
  have a: "\<forall>q. prefix q ?d \<longrightarrow> is_dir (mkdirs ?fs ?d) q"
    using h by (simp add: mkdirs_is_dir)
  have b: "\<forall>q. path_exists ?fs q \<or> \<not> prefix q ?d \<longrightarrow> mkdirs ?fs ?d q = ?fs q"
    by (auto simp: mkdirs_def path_exists_def)
  have c: "is_dir ?fs ?d \<longrightarrow> mkdirs ?fs ?d = ?fs"
    using h by (auto simp: mkdirs_existing is_dir_exists)
  from mk2 f1 have r2: "fst (setup_data_directory r (snd (setup_data_directory r w))) = Inr ()"
    and f2: "files (snd (setup_data_directory r (snd (setup_data_directory r w)))) = mkdirs ?fs ?d"
    by (simp_all add: setup_data_directory_eq)
  from r1 f1 a b c r2 f2 show "fst (setup_data_directory r w) = Inr ()
     \<and> (\<forall>q. prefix q (data_dir r) \<longrightarrow> is_dir (files (snd (setup_data_directory r w))) q)
     \<and> (\<forall>q. path_exists (files w) q \<or> \<not> prefix q (data_dir r) \<longrightarrow>
              files (snd (setup_data_directory r w)) q = files w q)
     \<and> (is_dir (files w) (data_dir r) \<longrightarrow> files (snd (setup_data_directory r w)) = files w)
     \<and> fst (setup_data_directory r (snd (setup_data_directory r w))) = Inr ()
     \<and> files (snd (setup_data_directory r (snd (setup_data_directory r w))))
          = files (snd (setup_data_directory r w))"
    by simp
qed

theorem setup_creates_and_is_idempotent_witness:
  "wf_fs fs_home
   \<and> unblocked fs_home (data_dir runner_deep)
   \<and> \<not> path_exists fs_home [''home'', ''u'', ''out'']
   \<and> fst (setup_data_directory runner_deep \<lparr>files = fs_home, trace = []\<rparr>) = Inr ()
   \<and> is_dir (files (snd (setup_data_directory runner_deep \<lparr>files = fs_home, trace = []\<rparr>)))
        [''home'', ''u'', ''out'']
   \<and> is_dir (files (snd (setup_data_directory runner_deep \<lparr>files = fs_home, trace = []\<rparr>)))
        [''home'', ''u'', ''out'', ''run1'']
   \<and> files (snd (setup_data_directory runner_deep \<lparr>files = fs_home, trace = []\<rparr>))
        [''home'', ''u'', ''cat.jpg''] = Some (File ''JFIF'' st644)
   \<and> fst (setup_data_directory runner_deep
            (snd (setup_data_directory runner_deep \<lparr>files = fs_home, trace = []\<rparr>))) = Inr ()
   \<and> files (snd (setup_data_directory runner_deep
            (snd (setup_data_directory runner_deep \<lparr>files = fs_home, trace = []\<rparr>))))
       = files (snd (setup_data_directory runner_deep \<lparr>files = fs_home, trace = []\<rparr>))"
proof -
  have d: "data_dir runner_deep = [''home'', ''u'', ''out'', ''run1'']"
    by (simp add: runner_deep_def)
  have h: "wf_fs (files \<lparr>files = fs_home, trace = []\<rparr>) \<and>
           unblocked (files \<lparr>files = fs_home, trace = []\<rparr>) (data_dir runner_deep)"
    using wf_fs_home unblocked_deep by (simp add: d)
  have e: "path_exists fs_home [''home'', ''u'', ''cat.jpg'']"
          "\<not> path_exists fs_home [''home'', ''u'', ''out'']"
          "fs_home [''home'', ''u'', ''cat.jpg''] = Some (File ''JFIF'' st644)"
    by (simp_all add: path_exists_def fs_home_def)
  from setup_creates_and_is_idempotent [of "\<lparr>files = fs_home, trace = []\<rparr>" runner_deep] h
  have t: "fst (setup_data_directory runner_deep \<lparr>files = fs_home, trace = []\<rparr>) = Inr ()
     \<and> (\<forall>q. prefix q (data_dir runner_deep) \<longrightarrow>
            is_dir (files (snd (setup_data_directory runner_deep \<lparr>files = fs_home, trace = []\<rparr>))) q)
     \<and> (\<forall>q. path_exists fs_home q \<or> \<not> prefix q (data_dir runner_deep) \<longrightarrow>
              files (snd (setup_data_directory runner_deep \<lparr>files = fs_home, trace = []\<rparr>)) q
                = fs_home q)
     \<and> fst (setup_data_directory runner_deep
            (snd (setup_data_directory runner_deep \<lparr>files = fs_home, trace = []\<rparr>))) = Inr ()
     \<and> files (snd (setup_data_directory runner_deep
            (snd (setup_data_directory runner_deep \<lparr>files = fs_home, trace = []\<rparr>))))
          = files (snd (setup_data_directory runner_deep \<lparr>files = fs_home, trace = []\<rparr>))"
    by simp
  from t have "is_dir (files (snd (setup_data_directory runner_deep \<lparr>files = fs_home, trace = []\<rparr>)))
        [''home'', ''u'', ''out'']"
    and "is_dir (files (snd (setup_data_directory runner_deep \<lparr>files = fs_home, trace = []\<rparr>)))
        [''home'', ''u'', ''out'', ''run1'']"
    by (simp_all add: d prefix_of_4)
  moreover from t e have "files (snd (setup_data_directory runner_deep \<lparr>files = fs_home, trace = []\<rparr>))
        [''home'', ''u'', ''cat.jpg''] = Some (File ''JFIF'' st644)"
    by metis
  ultimately show ?thesis
    using t h e by simp
qed

text \<open>
  C8. With \<open>--test\<close>, whatever the runtime check, the GPU probe, the image check and
  the input check come to, \<open>generate_shape\<close> is never called and the container command
  is never started.
\<close>

theorem test_mode_never_generates:
  "test a \<longrightarrow>
     Call GenerateShape \<notin> set (trace (snd (main a E fs0))) \<and>
     Exec (docker_cmd (Hunyuan3DRunner (docker_image_arg a) (output_dir a)))
       \<notin> set (trace (snd (main a E fs0)))"
  by (auto simp: main_def test_mode_def step_eqs Let_def
      split: proc_outcome.splits sum.splits if_splits)

theorem test_mode_never_generates_witness:
  "test args_test
   \<and> Call GenerateShape \<notin> set (trace (snd (main args_test env_ok fs_home)))
   \<and> Exec (docker_cmd runner0) \<notin> set (trace (snd (main args_test env_ok fs_home)))"
  using test_mode_never_generates [of args_test env_ok fs_home]
  by (simp add: args_test_def args_full_def runner0_def)

text \<open>
  C9. With \<open>--test\<close> the process is meant to run every check, make the workspace and
  exit with status 0 whatever the checks find. Where no \<open>docker\<close> executable is
  installed it does not: the runtime check catches \<open>FileNotFoundError\<close> and returns
  \<open>False\<close>, but the image check catches \<open>CalledProcessError\<close> only, so the
  \<open>FileNotFoundError\<close> of its listing command leaves \<open>main\<close> uncaught. The process
  exits with status 1 and the workspace step is never reached.
\<close>

theorem test_mode_without_docker:
  "main args_test env_no_docker fs_home
     = (1, \<lparr>files = fs_home,
             trace = [Call CheckDocker, Exec version_cmd, Call CheckGpu, Exec gpu_cmd,
                      Call CheckImage, Exec (images_cmd runner0)]\<rparr>)"
  by (simp add: main_def test_mode_def step_eqs Let_def args_test_def args_full_def
      runner0_def env_no_docker_def ran_def)

text \<open>
  Nothing in the \<open>--test\<close> branch catches an exception, so a workspace path that
  runs through a regular file also ends it with status 1 and no workspace directory,
  every check having passed.
\<close>

theorem test_mode_blocked_workspace:
  "test args_test_blocked
   \<and> fst (main args_test_blocked env_ok fs_home) = 1
   \<and> \<not> is_dir (files (snd (main args_test_blocked env_ok fs_home))) (output_dir args_test_blocked)"
  apply (simp add: main_def test_mode_def step_eqs Let_def args_test_blocked_def args_test_def
      args_full_def Hunyuan3DRunner_def env_ok_def strip_def py_isspace_def mkdir_blocked)
  apply (simp add: is_dir_def fs_home_def)
  done

text \<open>
  What does hold of the \<open>--test\<close> branch: when the image listing and the pull can be started, no
  command fails to start for a reason other than a missing executable, and no prefix
  of the workspace path is taken by something that is no directory (on a file system
  that is a tree), the process exits with status 0 whatever the runtime check, the GPU
  probe, the image check and the input check come to, and the workspace directory
  exists afterwards.
\<close>

theorem test_mode_exits_zero:
  "test a \<and>
   exec E version_cmd \<noteq> SpawnFailed \<and> exec E gpu_cmd \<noteq> SpawnFailed \<and>
   started (exec E (images_cmd (Hunyuan3DRunner (docker_image_arg a) (output_dir a)))) \<and>
   started (exec E (pull_cmd (Hunyuan3DRunner (docker_image_arg a) (output_dir a)))) \<and>
   wf_fs fs0 \<and> unblocked fs0 (output_dir a) \<longrightarrow>
     fst (main a E fs0) = 0 \<and>
     Call SetupDataDir \<in> set (trace (snd (main a E fs0))) \<and>
     is_dir (files (snd (main a E fs0))) (output_dir a)"
proof (intro impI)
  let ?r = "Hunyuan3DRunner (docker_image_arg a) (output_dir a)"
  assume h: "test a \<and>
   exec E version_cmd \<noteq> SpawnFailed \<and> exec E gpu_cmd \<noteq> SpawnFailed \<and>
   started (exec E (images_cmd ?r)) \<and> started (exec E (pull_cmd ?r)) \<and>
   wf_fs fs0 \<and> unblocked fs0 (output_dir a)"
  then have mk: "mkdir fs0 (output_dir a) True True = Inr (mkdirs fs0 (output_dir a))"
    by (simp add: mkdir_creates)
  from h have d: "is_dir (mkdirs fs0 (output_dir a)) (output_dir a)"
    by (simp add: mkdirs_is_dir)
  from h mk d show "fst (main a E fs0) = 0 \<and>
     Call SetupDataDir \<in> set (trace (snd (main a E fs0))) \<and>
     is_dir (files (snd (main a E fs0))) (output_dir a)"
    by (auto simp: main_def test_mode_def step_eqs Let_def started_def
        split: proc_outcome.splits)
qed

theorem test_mode_exits_zero_witness:
  "test args_test_missing
   \<and> fst (check_docker_available env_failing \<lparr>files = fs_home, trace = []\<rparr>) = Inr False
   \<and> \<not> path_exists fs_home (input_image args_test_missing)
   \<and> wf_fs fs_home \<and> unblocked fs_home (output_dir args_test_missing)
   \<and> fst (main args_test_missing env_failing fs_home) = 0
   \<and> Call SetupDataDir \<in> set (trace (snd (main args_test_missing env_failing fs_home)))
   \<and> is_dir (files (snd (main args_test_missing env_failing fs_home)))
        [''home'', ''u'', ''hunyuan_data'']"
  using test_mode_exits_zero [of args_test_missing env_failing fs_home]
    wf_fs_home unblocked_home
  by (simp add: args_test_missing_def args_missing_def args_full_def env_failing_def
      started_def check_docker_available_eq path_exists_def fs_home_def)

text \<open>
  C10. When the image listing itself exits with a nonzero status,
  \<open>check_docker_image_exists\<close> returns \<open>False\<close> and never attempts the pull; the pull
  is attempted exactly when the listing exits with 0 and its output is empty once
  stripped.
\<close>

theorem listing_failure_skips_pull:
  "(exec E (images_cmd r) = Exited rc out \<and> rc \<noteq> 0 \<longrightarrow>
      check_docker_image_exists r E w = (Inr False, ran w [Call CheckImage, Exec (images_cmd r)]))
   \<and> (Exec (pull_cmd r) \<in> set (drop (length (trace w)) (trace (snd (check_docker_image_exists r E w))))
        \<longleftrightarrow> (\<exists>out. exec E (images_cmd r) = Exited 0 out \<and> strip out = []))
   \<and> (Call PullImage \<in> set (drop (length (trace w)) (trace (snd (check_docker_image_exists r E w))))
        \<longleftrightarrow> (\<exists>out. exec E (images_cmd r) = Exited 0 out \<and> strip out = []))"
  by (auto simp: step_eqs split: proc_outcome.splits)

theorem listing_failure_skips_pull_witness:
  "check_docker_image_exists runner0 env_failing \<lparr>files = fs_home, trace = []\<rparr>
     = (Inr False, \<lparr>files = fs_home, trace = [Call CheckImage, Exec (images_cmd runner0)]\<rparr>)
   \<and> Exec (pull_cmd runner0) \<notin> set (trace (snd (check_docker_image_exists runner0 env_failing
         \<lparr>files = fs_home, trace = []\<rparr>)))"
  using listing_failure_skips_pull [of env_failing runner0 1 "[]" "\<lparr>files = fs_home, trace = []\<rparr>"]
  by (simp add: env_failing_def env_silent_def env_ok_def ran_def)

end
